theory Spec2Isabelle
  imports Complex_Main
begin

section \<open>Cash-flow risk assessment engine (script.js)\<close>

text \<open>
  A shallow embedding of the decision-derivation engine of \<^verbatim>\<open>src/script.js\<close>:
  the two classifiers, \<^verbatim>\<open>determineDecision\<close>, \<^verbatim>\<open>calculateCombinedScore\<close>,
  \<^verbatim>\<open>processData\<close>, \<^verbatim>\<open>analyzeCriteria\<close> with the statistics part of
  \<^verbatim>\<open>updateInsights\<close> and \<^verbatim>\<open>updateSummaryCards\<close>, and the sample generator.

  Numbers. A criterion score is a JavaScript number that ingestion has already made
  a proper number (\<^verbatim>\<open>parseFloat(x) || 0\<close> followed by an \<^verbatim>\<open>isNaN\<close> filter), or an
  integer produced by the generator. Scores are modelled as \<^typ>\<open>real\<close>: comparisons
  are exact, and arithmetic is the exact arithmetic that binary64 approximates (the
  rounding error of binary64 is not modelled). The one place where the source divides
  by a number that can be zero (\<^verbatim>\<open>analyzeCriteria\<close>, and the rates) uses the type
  \<open>number\<close> below, which has the values \<^verbatim>\<open>NaN\<close> and \<^verbatim>\<open>\<plusminus>Infinity\<close> that such a
  division produces in JavaScript.
\<close>

subsection \<open>Data model\<close>

record customer =
  customer_id :: string
  transaction_history :: real
  affordability :: real
  employment :: real
  behavior :: real

text \<open>The strings returned by \<^verbatim>\<open>getCriteriaRisk\<close>: 'low', 'moderate', 'elevated', 'high'.\<close>

datatype tier = Low | Moderate | Elevated | High

text \<open>The strings returned by \<^verbatim>\<open>getRiskLevel\<close>:
  'Low Risk', 'Moderate Risk', 'Elevated Risk', 'High Risk'.\<close>

datatype overall_risk = Low_Risk | Moderate_Risk | Elevated_Risk | High_Risk

text \<open>The strings returned by \<^verbatim>\<open>determineDecision\<close>:
  'Auto Approve', 'Manual Review', 'Elevated Risk', 'Auto Deny'.\<close>

datatype decision = AutoApprove | ManualReview | ElevatedRisk | AutoDeny

text \<open>The keys of the objects \<^verbatim>\<open>risks\<close> (in \<^verbatim>\<open>determineDecision\<close>) and
  \<^verbatim>\<open>variation\<close> (in \<^verbatim>\<open>generateScore\<close>), and, through \<open>field\<close>, the property names
  listed in \<^verbatim>\<open>analyzeCriteria\<close>.\<close>

datatype criterion = Transaction | Affordability | Employment | Behavior

text \<open>What \<^verbatim>\<open>processData\<close> returns for one customer: the customer's own properties
  (the spread \<^verbatim>\<open>...customer\<close>) and three more.\<close>

record processed = customer +
  combined_score :: real
  risk_level :: overall_risk
  decision :: decision

subsection \<open>Risk thresholds and the two classifiers\<close>

record risk_thresholds =
  low :: real
  moderate :: real
  elevated :: real
  high :: real

definition RISK_THRESHOLDS :: risk_thresholds where
  "RISK_THRESHOLDS = \<lparr> low = 70, moderate = 50, elevated = 35, high = 0 \<rparr>"

definition getRiskLevel :: "real \<Rightarrow> overall_risk" where
  "getRiskLevel score =
     (if score \<ge> low RISK_THRESHOLDS then Low_Risk
      else if score \<ge> moderate RISK_THRESHOLDS then Moderate_Risk
      else if score \<ge> elevated RISK_THRESHOLDS then Elevated_Risk
      else High_Risk)"

definition getCriteriaRisk :: "real \<Rightarrow> tier" where
  "getCriteriaRisk score =
     (if score \<ge> low RISK_THRESHOLDS then Low
      else if score \<ge> moderate RISK_THRESHOLDS then Moderate
      else if score \<ge> elevated RISK_THRESHOLDS then Elevated
      else High)"

text \<open>The renaming between the two label sets: 'low' and 'Low Risk', and so on.\<close>

fun risk_label :: "tier \<Rightarrow> overall_risk" where
  "risk_label Low = Low_Risk"
| "risk_label Moderate = Moderate_Risk"
| "risk_label Elevated = Elevated_Risk"
| "risk_label High = High_Risk"

subsection \<open>The decision engine\<close>

text \<open>
  \<^verbatim>\<open>riskCounts\<close> is an object keyed by the tier name, all four counters starting at 0;
  \<^verbatim>\<open>riskCounts[risk]++\<close> adds one to the counter of that tier.
  \<^verbatim>\<open>Object.values(risks)\<close> lists the four tiers in the order the object literal
  gives them.
\<close>

definition count_risk :: "(tier \<Rightarrow> nat) \<Rightarrow> tier \<Rightarrow> (tier \<Rightarrow> nat)" where
  "count_risk riskCounts risk = riskCounts(risk := riskCounts risk + 1)"

definition determineDecision :: "'a customer_scheme \<Rightarrow> decision" where
  "determineDecision c =
     (let risks = (\<lambda>k. case k of
                     Transaction \<Rightarrow> getCriteriaRisk (transaction_history c)
                   | Affordability \<Rightarrow> getCriteriaRisk (affordability c)
                   | Employment \<Rightarrow> getCriteriaRisk (employment c)
                   | Behavior \<Rightarrow> getCriteriaRisk (behavior c));
          riskCounts = foldl count_risk (\<lambda>_. 0)
                         (map risks [Transaction, Affordability, Employment, Behavior])
      in if riskCounts High > 0 then AutoDeny
         else if riskCounts Elevated \<ge> 2 then AutoDeny
         else if risks Affordability = Elevated \<and> riskCounts Moderate = 3 then AutoDeny
         else if riskCounts Low = 4 then AutoApprove
         else if riskCounts Low \<ge> 2 \<and> riskCounts Elevated = 0 then AutoApprove
         else if riskCounts Elevated = 1 then ElevatedRisk
         else ManualReview)"

text \<open>
  The rule table as the specification words it: an ordered list of (condition, outcome)
  pairs over the four tiers, the first matching rule deciding, with
  \<open>ManualReview\<close> when none matches. \<open>tally\<close> counts how many of the four tiers
  are a given tier.
\<close>

definition tally :: "tier list \<Rightarrow> tier \<Rightarrow> nat" where
  "tally ts t = length (filter (\<lambda>x. x = t) ts)"

definition decision_rules :: "tier \<Rightarrow> tier \<Rightarrow> tier \<Rightarrow> tier \<Rightarrow> (bool \<times> decision) list" where
  "decision_rules tr af em be =
     (let ts = [tr, af, em, be] in
      [ (High \<in> set ts, AutoDeny),
        (tally ts Elevated \<ge> 2, AutoDeny),
        (af = Elevated \<and> tally ts Moderate = 3, AutoDeny),
        (tally ts Low = 4, AutoApprove),
        (tally ts Low \<ge> 2 \<and> Elevated \<notin> set ts, AutoApprove),
        (tally ts Elevated = 1, ElevatedRisk) ])"

fun first_match :: "(bool \<times> decision) list \<Rightarrow> decision" where
  "first_match [] = ManualReview"
| "first_match ((b, d) # rs) = (if b then d else first_match rs)"

subsection \<open>Combined score and batch processing\<close>

definition calculateCombinedScore :: "'a customer_scheme \<Rightarrow> real" where
  "calculateCombinedScore c =
     (transaction_history c + affordability c + employment c + behavior c) / 4"

text \<open>\<^verbatim>\<open>Math.round\<close>: the nearest integer, a tie going to the integer closer to
  \<open>+\<infinity>\<close>, which is \<open>\<lfloor>x + 1/2\<rfloor>\<close>.\<close>

definition Math_round :: "real \<Rightarrow> real" where
  "Math_round x = of_int \<lfloor>x + 1 / 2\<rfloor>"

text \<open>The body of the arrow function that \<^verbatim>\<open>processData\<close> maps over the batch.\<close>

definition processCustomer :: "customer \<Rightarrow> processed" where
  "processCustomer c =
     (let combinedScore = calculateCombinedScore c;
          riskLevel = getRiskLevel combinedScore;
          decision = determineDecision c
      in customer.extend c
           (processed.fields (Math_round (combinedScore * 10) / 10) riskLevel decision))"

definition processData :: "customer list \<Rightarrow> processed list" where
  "processData rawData = map processCustomer rawData"


subsection \<open>JavaScript numbers where a division can be by zero\<close>

text \<open>
  The result of a JavaScript division of two finite numbers: a finite quotient, or
  \<^verbatim>\<open>NaN\<close> for \<^verbatim>\<open>0 / 0\<close>, or an infinity for a non-zero number over zero. No
  division throws. (The divisors of the source are array lengths, so the zero is
  \<open>+0\<close>.) A comparison with \<^verbatim>\<open>NaN\<close> on either side is false.
\<close>

datatype number = Fin real | PosInfinity | NegInfinity | NaN

definition js_div :: "real \<Rightarrow> real \<Rightarrow> number" where
  "js_div a b =
     (if b \<noteq> 0 then Fin (a / b)
      else if a = 0 then NaN
      else if a > 0 then PosInfinity else NegInfinity)"

fun js_times :: "number \<Rightarrow> real \<Rightarrow> number" where
  "js_times (Fin x) c = Fin (x * c)"
| "js_times NaN c = NaN"
| "js_times PosInfinity c = (if c > 0 then PosInfinity else if c < 0 then NegInfinity else NaN)"
| "js_times NegInfinity c = (if c > 0 then NegInfinity else if c < 0 then PosInfinity else NaN)"

fun js_lt :: "number \<Rightarrow> number \<Rightarrow> bool" where
  "js_lt (Fin x) (Fin y) = (x < y)"
| "js_lt NaN _ = False"
| "js_lt _ NaN = False"
| "js_lt NegInfinity (Fin y) = True"
| "js_lt NegInfinity PosInfinity = True"
| "js_lt (Fin x) PosInfinity = True"
| "js_lt _ _ = False"

text \<open>\<^verbatim>\<open>Array.prototype.reduce\<close> without an initial value throws a TypeError on an
  empty array; with one it is a left fold.\<close>

datatype js_error = TypeError

fun reduce :: "('a \<Rightarrow> 'a \<Rightarrow> 'a) \<Rightarrow> 'a list \<Rightarrow> js_error + 'a" where
  "reduce f [] = Inl TypeError"
| "reduce f (x # xs) = Inr (foldl f x xs)"

subsection \<open>Portfolio statistics\<close>

fun field :: "criterion \<Rightarrow> 'a customer_scheme \<Rightarrow> real" where
  "field Transaction d = transaction_history d"
| "field Affordability d = affordability d"
| "field Employment d = employment d"
| "field Behavior d = behavior d"

fun field_name :: "criterion \<Rightarrow> string" where
  "field_name Transaction = ''transaction_history''"
| "field_name Affordability = ''affordability''"
| "field_name Employment = ''employment''"
| "field_name Behavior = ''behavior''"

definition criteria :: "criterion list" where
  "criteria = [Transaction, Affordability, Employment, Behavior]"

definition names :: "string list" where
  "names = [''Transaction History'', ''Affordability'', ''Employment'', ''Behavior'']"

record criterion_stat =
  key :: string
  name :: string
  avgScore :: number

definition analyzeCriteria :: "'a customer_scheme list \<Rightarrow> criterion_stat list" where
  "analyzeCriteria data =
     map (\<lambda>(criterion, index).
            let scores = map (field criterion) data;
                avgScore = js_div (foldl (\<lambda>a b. a + b) 0 scores) (real (length scores))
            in \<lparr> key = field_name criterion, name = names ! index, avgScore = avgScore \<rparr>)
         (zip criteria [0 ..< length criteria])"

text \<open>The statistics that \<^verbatim>\<open>updateInsights\<close> computes before it chooses the
  insights. With no data it shows the placeholder and returns at once (\<open>None\<close>).
  The three rates are the numbers that the source then formats with
  \<^verbatim>\<open>toFixed(1)\<close>.\<close>

definition weaker :: "criterion_stat \<Rightarrow> criterion_stat \<Rightarrow> criterion_stat" where
  "weaker a b = (if js_lt (avgScore a) (avgScore b) then a else b)"

record insight_stats =
  approvalRate :: number
  denyRate :: number
  reviewRate :: number
  weakestCriterion :: "js_error + criterion_stat"

definition updateInsights :: "processed list \<Rightarrow> insight_stats option" where
  "updateInsights data =
     (if length data = 0 then None
      else
        let total = real (length data);
            approvalRate = js_times (js_div (real (length
                (filter (\<lambda>d. decision d = AutoApprove) data))) total) 100;
            denyRate = js_times (js_div (real (length
                (filter (\<lambda>d. decision d = AutoDeny) data))) total) 100;
            reviewRate = js_times (js_div (real (length
                (filter (\<lambda>d. decision d = ManualReview \<or> decision d = ElevatedRisk) data)))
                total) 100;
            criteriaStats = analyzeCriteria data;
            weakestCriterion = reduce weaker criteriaStats
        in Some \<lparr> approvalRate = approvalRate, denyRate = denyRate,
                  reviewRate = reviewRate, weakestCriterion = weakestCriterion \<rparr>)"

text \<open>\<^verbatim>\<open>updateSummaryCards\<close>: the four decision counts and the total, and the widths
  of the four progress bars, which are computed only under \<^verbatim>\<open>if (total > 0)\<close>.\<close>

definition updateSummaryCards ::
  "processed list \<Rightarrow> (decision \<Rightarrow> nat) \<times> nat \<times> (decision \<Rightarrow> number) option" where
  "updateSummaryCards data =
     (let total = length data;
          counts = (\<lambda>k. length (filter (\<lambda>d. decision d = k) data))
      in (counts, total,
          if total > 0
          then Some (\<lambda>k. js_times (js_div (real (counts k)) (real total)) 100)
          else None))"

subsection \<open>Sample data generation\<close>

text \<open>
  \<^verbatim>\<open>Math.random\<close> is modelled by an arbitrary sequence of draws and the number of
  draws already taken: a call returns the next draw and advances the position.
\<close>

definition Math_random :: "(nat \<Rightarrow> real) \<Rightarrow> nat \<Rightarrow> real \<times> nat" where
  "Math_random draws k = (draws k, Suc k)"

definition Math_floor :: "real \<Rightarrow> real" where
  "Math_floor x = of_int \<lfloor>x\<rfloor>"

datatype profile = Excellent | Good | Fair | Poor

definition getRandomProfile :: "(nat \<Rightarrow> real) \<Rightarrow> nat \<Rightarrow> profile \<times> nat" where
  "getRandomProfile draws k =
     (let (rand, k') = Math_random draws k
      in (if rand < 30 / 100 then Excellent
          else if rand < 70 / 100 then Good
          else if rand < 90 / 100 then Fair
          else Poor, k'))"

record base_range =
  range_min :: real
  range_max :: real

fun baseRanges :: "profile \<Rightarrow> base_range" where
  "baseRanges Excellent = \<lparr> range_min = 70, range_max = 100 \<rparr>"
| "baseRanges Good = \<lparr> range_min = 50, range_max = 85 \<rparr>"
| "baseRanges Fair = \<lparr> range_min = 30, range_max = 65 \<rparr>"
| "baseRanges Poor = \<lparr> range_min = 10, range_max = 45 \<rparr>"

text \<open>The source reads \<^verbatim>\<open>variation[criterion] || 0\<close>; every criterion has an entry, and
  \<^verbatim>\<open>0 || 0\<close> is 0.\<close>

fun variation :: "criterion \<Rightarrow> real" where
  "variation Transaction = 0"
| "variation Affordability = - 5"
| "variation Employment = 5"
| "variation Behavior = 0"

definition generateScore :: "(nat \<Rightarrow> real) \<Rightarrow> profile \<Rightarrow> criterion \<Rightarrow> nat \<Rightarrow> real \<times> nat" where
  "generateScore draws profile criterion k =
     (let range = baseRanges profile;
          (r1, k1) = Math_random draws k;
          score = Math_floor (r1 * (range_max range - range_min range + 1) + range_min range);
          score = max 0 (min 100 (score + variation criterion));
          (r2, k2) = Math_random draws k1;
          score = score + (Math_floor (r2 * 11) - 5)
      in (max 0 (min 100 score), k2))"

text \<open>\<^verbatim>\<open>String(i)\<close> for a non-negative integer, and \<^verbatim>\<open>padStart\<close> with a
  one-character pad string.\<close>

definition digit_char :: "nat \<Rightarrow> char" where
  "digit_char d = ''0123456789'' ! d"

fun toString :: "nat \<Rightarrow> string" where
  "toString n = (if n < 10 then [digit_char n]
                 else toString (n div 10) @ [digit_char (n mod 10)])"

declare toString.simps [simp del]

definition padStart :: "nat \<Rightarrow> char \<Rightarrow> string \<Rightarrow> string" where
  "padStart targetLength padChar s = replicate (targetLength - length s) padChar @ s"

text \<open>The template literal \<^verbatim>\<open>`CUST-${String(i).padStart(4, '0')}`\<close>.\<close>

definition customerId :: "nat \<Rightarrow> string" where
  "customerId i = ''CUST-'' @ padStart 4 (CHR ''0'') (toString i)"

text \<open>One pass of the loop body of \<^verbatim>\<open>generateSampleData\<close>: the profile draw, then
  the four scores in the order of the object literal.\<close>

definition generateCustomer :: "(nat \<Rightarrow> real) \<Rightarrow> nat \<Rightarrow> nat \<Rightarrow> customer \<times> nat" where
  "generateCustomer draws i k =
     (let customerId = customerId i;
          (profile, k0) = getRandomProfile draws k;
          (tr, k1) = generateScore draws profile Transaction k0;
          (af, k2) = generateScore draws profile Affordability k1;
          (em, k3) = generateScore draws profile Employment k2;
          (be, k4) = generateScore draws profile Behavior k3
      in (\<lparr> customer_id = customerId, transaction_history = tr, affordability = af,
            employment = em, behavior = be \<rparr>, k4))"

function generateSampleData_loop ::
  "(nat \<Rightarrow> real) \<Rightarrow> nat \<Rightarrow> nat \<Rightarrow> customer list \<Rightarrow> nat \<Rightarrow> customer list \<times> nat" where
  "generateSampleData_loop draws count i data k =
     (if i \<le> count
      then (let (customer, k') = generateCustomer draws i k
            in generateSampleData_loop draws count (Suc i) (data @ [customer]) k')
      else (data, k))"
  by pat_completeness auto
termination
  by (relation "measure (\<lambda>(draws, count, i, data, k). Suc count - i)") auto

declare generateSampleData_loop.simps [simp del]

definition generateSampleData :: "(nat \<Rightarrow> real) \<Rightarrow> nat \<Rightarrow> nat \<Rightarrow> customer list \<times> nat" where
  "generateSampleData draws count k = generateSampleData_loop draws count 1 [] k"

subsection \<open>The specification's wording, for comparison\<close>


fun field_order :: "criterion \<Rightarrow> nat" where
  "field_order Transaction = 0"
| "field_order Affordability = 1"
| "field_order Employment = 2"
| "field_order Behavior = 3"


subsection \<open>Auxiliary definitions for the proofs\<close>

text \<open>The entry that \<open>analyzeCriteria\<close> builds for one criterion.\<close>

definition stat_of :: "criterion \<Rightarrow> 'a customer_scheme list \<Rightarrow> criterion_stat" where
  "stat_of k data = \<lparr> key = field_name k, name = names ! field_order k,
       avgScore = js_div (sum_list (map (field k) data)) (real (length data)) \<rparr>"

text \<open>Reading a decimal string back, to show that the customer IDs are distinct.\<close>

definition fromString :: "string \<Rightarrow> nat" where
  "fromString s = foldl (\<lambda>a c. 10 * a + (of_char c - 48)) 0 s"

section \<open>Verification\<close>

subsection \<open>The tally of the decision engine\<close>

text \<open>The counters that the \<^verbatim>\<open>forEach\<close> loop increments hold, at the end, the number of
  criteria in each tier.\<close>

lemma foldl_count_risk: "foldl count_risk f ts t = f t + tally ts t"
  by (induction ts arbitrary: f) (simp_all add: count_risk_def tally_def)

lemma riskCounts_tally: "foldl count_risk (\<lambda>_. 0) ts = tally ts"
  by (rule ext) (simp add: foldl_count_risk)

lemma tally_pos_iff: "0 < tally ts t \<longleftrightarrow> t \<in> set ts"
  by (induction ts) (auto simp: tally_def)

lemma tally_zero_iff: "tally ts t = 0 \<longleftrightarrow> t \<notin> set ts"
  using tally_pos_iff [of ts t] by auto

text \<open>
  C1. For every record, \<open>determineDecision\<close> classifies the four scores with
  \<open>getCriteriaRisk\<close>, tallies the tiers, and returns the outcome of the first rule that
  matches, in the order: (1) AutoDeny if any tier is High; (2) AutoDeny if two or more
  tiers are Elevated; (3) AutoDeny if the affordability tier is Elevated and exactly three
  tiers are Moderate; (4) AutoApprove if all four tiers are Low; (5) AutoApprove if at
  least two tiers are Low and none is Elevated; (6) ElevatedRisk if exactly one tier is
  Elevated; (7) ManualReview otherwise. The result is one of the four decisions.
\<close>

theorem determineDecision_rules:
  "determineDecision c =
     first_match (decision_rules
       (getCriteriaRisk (transaction_history c)) (getCriteriaRisk (affordability c))
       (getCriteriaRisk (employment c)) (getCriteriaRisk (behavior c)))
   \<and> determineDecision c \<in> {AutoApprove, ManualReview, ElevatedRisk, AutoDeny}"
proof
  let ?ts = "[getCriteriaRisk (transaction_history c), getCriteriaRisk (affordability c),
       getCriteriaRisk (employment c), getCriteriaRisk (behavior c)]"
  have hi: "0 < tally ?ts High \<longleftrightarrow> High \<in> set ?ts" by (rule tally_pos_iff)
  have el: "tally ?ts Elevated = 0 \<longleftrightarrow> Elevated \<notin> set ?ts" by (rule tally_zero_iff)
  show "determineDecision c =
     first_match (decision_rules
       (getCriteriaRisk (transaction_history c)) (getCriteriaRisk (affordability c))
       (getCriteriaRisk (employment c)) (getCriteriaRisk (behavior c)))"
    unfolding determineDecision_def decision_rules_def Let_def
    by (simp only: list.map criterion.case riskCounts_tally hi el first_match.simps)
  show "determineDecision c \<in> {AutoApprove, ManualReview, ElevatedRisk, AutoDeny}"
    by (cases "determineDecision c") simp_all
qed

text \<open>The rule order at work: affordability Elevated with three Moderate is denied by
  rule 3, before rule 6 (a single Elevated) is reached.\<close>

theorem determineDecision_rules_witness:
  "determineDecision \<lparr>customer_id = ''CUST-0001'', transaction_history = 60,
       affordability = 40, employment = 60, behavior = 60\<rparr> = AutoDeny"
  using determineDecision_rules [of "\<lparr>customer_id = ''CUST-0001'', transaction_history = 60,
       affordability = 40, employment = 60, behavior = 60\<rparr>"]
  by (simp add: decision_rules_def tally_def getCriteriaRisk_def RISK_THRESHOLDS_def)

subsection \<open>The classifiers\<close>

text \<open>
  C2. For every score \<open>s\<close>, each classifier assigns one tier, with boundaries closed
  below and open above at exactly 35, 50 and 70: Low iff \<open>s \<ge> 70\<close>, Moderate iff
  \<open>50 \<le> s < 70\<close>, Elevated iff \<open>35 \<le> s < 50\<close>, High iff \<open>s < 35\<close>; in particular
  69.999 is Moderate and 70 is Low.
\<close>

theorem classify_boundaries:
  "(getCriteriaRisk s = Low \<longleftrightarrow> 70 \<le> s) \<and>
   (getCriteriaRisk s = Moderate \<longleftrightarrow> 50 \<le> s \<and> s < 70) \<and>
   (getCriteriaRisk s = Elevated \<longleftrightarrow> 35 \<le> s \<and> s < 50) \<and>
   (getCriteriaRisk s = High \<longleftrightarrow> s < 35) \<and>
   (getRiskLevel s = Low_Risk \<longleftrightarrow> 70 \<le> s) \<and>
   (getRiskLevel s = Moderate_Risk \<longleftrightarrow> 50 \<le> s \<and> s < 70) \<and>
   (getRiskLevel s = Elevated_Risk \<longleftrightarrow> 35 \<le> s \<and> s < 50) \<and>
   (getRiskLevel s = High_Risk \<longleftrightarrow> s < 35) \<and>
   getCriteriaRisk (69999 / 1000) = Moderate \<and> getCriteriaRisk 70 = Low \<and>
   getRiskLevel (69999 / 1000) = Moderate_Risk \<and> getRiskLevel 70 = Low_Risk"
  by (simp add: getCriteriaRisk_def getRiskLevel_def RISK_THRESHOLDS_def)

text \<open>
  C10. For every score \<open>s\<close>, \<open>getRiskLevel s\<close> and \<open>getCriteriaRisk s\<close> are the same
  tier up to the naming of the labels ('Low Risk' for 'low', and so on); the renaming is
  one-to-one.
\<close>

theorem classifiers_agree:
  "getRiskLevel s = risk_label (getCriteriaRisk s) \<and> inj risk_label"
proof
  show "getRiskLevel s = risk_label (getCriteriaRisk s)"
    by (simp add: getCriteriaRisk_def getRiskLevel_def)
  show "inj risk_label"
  proof (rule injI)
    fix x y assume "risk_label x = risk_label y"
    then show "x = y" by (cases x; cases y) simp_all
  qed
qed

subsection \<open>Processed records\<close>

lemma processCustomer_fields:
  "customer_id (processCustomer c) = customer_id c"
  "transaction_history (processCustomer c) = transaction_history c"
  "affordability (processCustomer c) = affordability c"
  "employment (processCustomer c) = employment c"
  "behavior (processCustomer c) = behavior c"
  "combined_score (processCustomer c) = Math_round (calculateCombinedScore c * 10) / 10"
  "risk_level (processCustomer c) = getRiskLevel (calculateCombinedScore c)"
  "decision (processCustomer c) = determineDecision c"
  "customer.truncate (processCustomer c) = c"
  by (simp_all add: processCustomer_def customer.defs processed.defs Let_def)









text \<open>
  When the four scores are integers, as the scores of the generator are, the mean is a
  multiple of 1/4 and rounding it to one decimal does not move it across 35, 50 or 70:
  the tier of the rounded score is then the tier of the mean.
\<close>

lemma round_tenths_ge_iff:
  fixes k T :: int
  shows "of_int T \<le> Math_round (of_int k / 4 * 10) / (10::real) \<longleftrightarrow> of_int T \<le> (of_int k / 4 :: real)"
proof -
  have "of_int T \<le> Math_round (of_int k / 4 * 10) / (10::real)
        \<longleftrightarrow> (of_int (10 * T) :: real) \<le> of_int \<lfloor>(of_int k / 4 * 10 :: real) + 1 / 2\<rfloor>"
    by (simp add: Math_round_def field_simps)
  also have "\<dots> \<longleftrightarrow> 10 * T \<le> \<lfloor>(of_int k / 4 * 10 :: real) + 1 / 2\<rfloor>"
    by (simp only: of_int_le_iff)
  also have "\<dots> \<longleftrightarrow> (of_int (10 * T) :: real) \<le> of_int k / 4 * 10 + 1 / 2"
    by (simp only: le_floor_iff)
  also have "\<dots> \<longleftrightarrow> (of_int (40 * T) :: real) \<le> of_int (10 * k + 2)"
    by (simp add: field_simps) linarith
  also have "\<dots> \<longleftrightarrow> 40 * T \<le> 10 * k + 2"
    by (simp only: of_int_le_iff)
  also have "\<dots> \<longleftrightarrow> 4 * T \<le> k" by presburger
  also have "\<dots> \<longleftrightarrow> (of_int (4 * T) :: real) \<le> of_int k"
    by (simp only: of_int_le_iff)
  also have "\<dots> \<longleftrightarrow> of_int T \<le> (of_int k / 4 :: real)"
    by (simp add: field_simps)
  finally show ?thesis .
qed

lemma risk_level_integer_scores:
  assumes "transaction_history c \<in> \<int>" "affordability c \<in> \<int>"
          "employment c \<in> \<int>" "behavior c \<in> \<int>"
  shows "getRiskLevel (Math_round (calculateCombinedScore c * 10) / 10)
       = getRiskLevel (calculateCombinedScore c)"
proof -
  have "transaction_history c + affordability c + employment c + behavior c \<in> \<int>"
    using assms by (intro Ints_add)
  then obtain k :: int where k: "transaction_history c + affordability c + employment c
      + behavior c = of_int k" by (auto elim: Ints_cases)
  have m: "calculateCombinedScore c = of_int k / 4"
    by (simp add: calculateCombinedScore_def k)
  show ?thesis
    unfolding m getRiskLevel_def RISK_THRESHOLDS_def
    using round_tenths_ge_iff [of 70 k] round_tenths_ge_iff [of 50 k]
      round_tenths_ge_iff [of 35 k]
    by simp
qed

text \<open>
  C9. For every batch, \<open>processData\<close> returns a list of the same length, whose
  i-th record has the \<open>customer_id\<close> and the four criterion values of the i-th input
  record unchanged; dropping the three derived fields gives the input batch back.
  \<open>processData\<close> only reads its argument: \<^verbatim>\<open>map\<close> builds a new array and the spread
  a new object, and the model is a function of \<open>rawData\<close> accordingly.
\<close>

theorem processData_frame:
  "length (processData rawData) = length rawData
   \<and> map customer.truncate (processData rawData) = rawData
   \<and> (\<forall>i < length rawData.
        customer_id (processData rawData ! i) = customer_id (rawData ! i)
      \<and> transaction_history (processData rawData ! i) = transaction_history (rawData ! i)
      \<and> affordability (processData rawData ! i) = affordability (rawData ! i)
      \<and> employment (processData rawData ! i) = employment (rawData ! i)
      \<and> behavior (processData rawData ! i) = behavior (rawData ! i))"
  by (simp add: processData_def processCustomer_fields comp_def)

theorem processData_frame_witness:
  "processData [\<lparr>customer_id = ''CUST-0001'', transaction_history = 70,
       affordability = 71, employment = 70, behavior = 70\<rparr>] ! 0 =
   \<lparr>customer_id = ''CUST-0001'', transaction_history = 70,
       affordability = 71, employment = 70, behavior = 70, 
       combined_score = 703 / 10, risk_level = Low_Risk, decision = AutoApprove\<rparr>"
proof -
  let ?raw = "[\<lparr>customer_id = ''CUST-0001'', transaction_history = 70,
       affordability = 71, employment = 70, behavior = 70\<rparr>]"
  let ?p = "processData ?raw ! 0"
  have "customer_id ?p = customer_id (?raw ! 0) \<and> transaction_history ?p = transaction_history (?raw ! 0)
     \<and> affordability ?p = affordability (?raw ! 0) \<and> employment ?p = employment (?raw ! 0)
     \<and> behavior ?p = behavior (?raw ! 0)"
    using processData_frame [of ?raw] by simp
  moreover have "combined_score ?p = 703 / 10" "risk_level ?p = Low_Risk" "decision ?p = AutoApprove"
    by (simp_all add: processData_def processCustomer_fields calculateCombinedScore_def
      Math_round_def getRiskLevel_def RISK_THRESHOLDS_def determineDecision_def
      getCriteriaRisk_def count_risk_def)
  ultimately show ?thesis by (cases ?p) simp
qed

subsection \<open>Portfolio statistics\<close>

lemma foldl_plus_sum_list: "foldl (\<lambda>a b. a + b) (a::real) xs = a + sum_list xs"
  by (induction xs arbitrary: a) simp_all

lemma analyzeCriteria_stats:
  "analyzeCriteria data =
     [stat_of Transaction data, stat_of Affordability data,
      stat_of Employment data, stat_of Behavior data]"
  by (simp add: analyzeCriteria_def criteria_def names_def stat_of_def foldl_plus_sum_list upt_rec)


lemma avgScore_stat_of_empty: "avgScore (stat_of k []) = NaN"
  by (simp add: stat_of_def js_div_def)






text \<open>
  On the empty batch \<open>analyzeCriteria\<close> divides by \<^verbatim>\<open>scores.length\<close>, which is 0,
  with no guard: each mean is \<^verbatim>\<open>0 / 0\<close>, that is \<^verbatim>\<open>NaN\<close>.
\<close>

theorem empty_batch_counterexample:
  "map avgScore (analyzeCriteria ([] :: processed list)) = [NaN, NaN, NaN, NaN]
   \<and> real (length (map (field Transaction) ([] :: processed list))) = 0
   \<and> js_div (foldl (\<lambda>a b. a + b) 0 (map (field Transaction) ([] :: processed list)))
        (real (length (map (field Transaction) ([] :: processed list)))) = NaN"
  by (simp add: analyzeCriteria_stats stat_of_def js_div_def)

text \<open>
  C6 (as amended). On the empty batch no aggregate function throws.
  \<open>analyzeCriteria\<close> has no guard of its own and returns \<^verbatim>\<open>NaN\<close> (from \<^verbatim>\<open>0 / 0\<close>)
  as each of the four means; the \<^verbatim>\<open>reduce\<close> that picks the weakest criterion has four
  entries to work on and returns the last one, every comparison with \<^verbatim>\<open>NaN\<close> being
  false. The guards are in the callers: \<open>updateInsights\<close> returns at once, before any
  rate, mean or weakest criterion is computed, and \<open>updateSummaryCards\<close> reports the
  counts and the total 0 and computes no rate.
\<close>

theorem empty_batch_no_throw:
  "analyzeCriteria ([] :: processed list) =
     [\<lparr> key = ''transaction_history'', name = ''Transaction History'', avgScore = NaN \<rparr>,
      \<lparr> key = ''affordability'', name = ''Affordability'', avgScore = NaN \<rparr>,
      \<lparr> key = ''employment'', name = ''Employment'', avgScore = NaN \<rparr>,
      \<lparr> key = ''behavior'', name = ''Behavior'', avgScore = NaN \<rparr>]
   \<and> reduce weaker (analyzeCriteria ([] :: processed list)) =
       Inr \<lparr> key = ''behavior'', name = ''Behavior'', avgScore = NaN \<rparr>
   \<and> updateInsights [] = None
   \<and> updateSummaryCards [] = (\<lambda>_. 0, 0, None)"
  by (simp add: analyzeCriteria_stats stat_of_def js_div_def names_def weaker_def
      updateInsights_def updateSummaryCards_def)

subsection \<open>Generated scores\<close>




lemma generateScore_unfold:
  "generateScore draws profile criterion k =
     (max 0 (min 100 (max 0 (min 100
        (Math_floor (draws k * (range_max (baseRanges profile)
            - range_min (baseRanges profile) + 1) + range_min (baseRanges profile))
         + variation criterion))
        + (Math_floor (draws (Suc k) * 11) - 5))), Suc (Suc k))"
  by (simp add: generateScore_def Math_random_def Let_def)






subsection \<open>Generated batches\<close>

lemma generateScore_bounds:
  "0 \<le> fst (generateScore draws profile criterion k)
   \<and> fst (generateScore draws profile criterion k) \<le> 100"
  by (simp add: generateScore_unfold)

lemma generateScore_state: "snd (generateScore draws profile criterion k) = k + 2"
  by (simp add: generateScore_unfold)

lemma getRandomProfile_state: "snd (getRandomProfile draws k) = k + 1"
  by (simp add: getRandomProfile_def Math_random_def)

lemma generateCustomer_id:
  "customer_id (fst (generateCustomer draws i k)) = customerId i"
  by (simp add: generateCustomer_def customerId_def split_def Let_def)

lemma generateCustomer_state: "snd (generateCustomer draws i k) = k + 9"
  by (simp add: generateCustomer_def split_def Let_def generateScore_state
      getRandomProfile_state)

lemma generateCustomer_bounds:
  "0 \<le> transaction_history (fst (generateCustomer draws i k))
   \<and> transaction_history (fst (generateCustomer draws i k)) \<le> 100
   \<and> 0 \<le> affordability (fst (generateCustomer draws i k))
   \<and> affordability (fst (generateCustomer draws i k)) \<le> 100
   \<and> 0 \<le> employment (fst (generateCustomer draws i k))
   \<and> employment (fst (generateCustomer draws i k)) \<le> 100
   \<and> 0 \<le> behavior (fst (generateCustomer draws i k))
   \<and> behavior (fst (generateCustomer draws i k)) \<le> 100"
  using generateScore_bounds
  by (simp add: generateCustomer_def split_def Let_def)

lemma generateSampleData_loop_eq:
  "generateSampleData_loop draws count i data k =
     (data @ map (\<lambda>j. fst (generateCustomer draws j (k + 9 * (j - i)))) [i ..< Suc count],
      k + 9 * (Suc count - i))"
proof (induction draws count i data k rule: generateSampleData_loop.induct)
  case (1 draws count i data k)
  show ?case
  proof (cases "i \<le> count")
    case True
    obtain customer k' where g: "generateCustomer draws i k = (customer, k')"
      by (cases "generateCustomer draws i k")
    have k': "k' = k + 9" using generateCustomer_state [of draws i k] g by simp
    have m: "map (\<lambda>j. fst (generateCustomer draws j (k' + 9 * (j - Suc i)))) [Suc i ..< Suc count]
           = map (\<lambda>j. fst (generateCustomer draws j (k + 9 * (j - i)))) [Suc i ..< Suc count]"
    proof (rule map_cong [OF refl])
      fix j assume "j \<in> set [Suc i ..< Suc count]"
      then have eq: "k' + 9 * (j - Suc i) = k + 9 * (j - i)" using k' by auto
      show "fst (generateCustomer draws j (k' + 9 * (j - Suc i)))
               = fst (generateCustomer draws j (k + 9 * (j - i)))" by (simp only: eq)
    qed
    have u: "[i ..< Suc count] = i # [Suc i ..< Suc count]"
      using True by (simp add: upt_conv_Cons)
    have s: "k' + 9 * (Suc count - Suc i) = k + 9 * (Suc count - i)"
      using True k' by simp
    have c: "customer = fst (generateCustomer draws i k)" using g by simp
    have "generateSampleData_loop draws count i data k =
          generateSampleData_loop draws count (Suc i) (data @ [customer]) k'"
      using True g by (subst generateSampleData_loop.simps) simp
    also have "\<dots> = ((data @ [customer]) @
          map (\<lambda>j. fst (generateCustomer draws j (k' + 9 * (j - Suc i)))) [Suc i ..< Suc count],
          k' + 9 * (Suc count - Suc i))"
      by (rule "1.IH" [OF True g [symmetric] refl])
    also have "\<dots> = (data @ map (\<lambda>j. fst (generateCustomer draws j (k + 9 * (j - i))))
          [i ..< Suc count], k + 9 * (Suc count - i))"
      unfolding m s u c by (simp del: upt_Suc)
    finally show ?thesis .
  next
    case False
    then show ?thesis
      by (subst generateSampleData_loop.simps) simp
  qed
qed

lemma generateSampleData_eq:
  "fst (generateSampleData draws count k) =
     map (\<lambda>j. fst (generateCustomer draws j (k + 9 * (j - 1)))) [1 ..< Suc count]"
  by (simp add: generateSampleData_def generateSampleData_loop_eq)

lemma fromString_snoc: "fromString (s @ [c]) = 10 * fromString s + (of_char c - 48)"
  by (simp add: fromString_def)

lemma of_char_digit: "d < 10 \<Longrightarrow> of_char (digit_char d) - 48 = d"
proof -
  assume "d < 10"
  then have "d \<in> {0, 1, 2, 3, 4, 5, 6, 7, 8, 9}" by auto
  then show ?thesis by (auto simp: digit_char_def)
qed

lemma fromString_toString: "fromString (toString n) = n"
proof (induction n rule: toString.induct)
  case (1 n)
  show ?case
  proof (cases "n < 10")
    case True
    then show ?thesis
      by (subst toString.simps) (simp add: fromString_def of_char_digit)
  next
    case False
    then have "fromString (toString (n div 10)) = n div 10" using "1.IH" by simp
    then show ?thesis
      using False by (subst toString.simps) (simp add: fromString_snoc of_char_digit)
  qed
qed

lemma foldl_zeros:
  "foldl (\<lambda>a c. 10 * a + (of_char c - 48)) (0::nat) (replicate m (CHR ''0'')) = 0"
  by (induction m) simp_all

lemma fromString_padStart: "fromString (padStart m (CHR ''0'') s) = fromString s"
  by (simp add: fromString_def padStart_def foldl_zeros)

lemma customerId_inj: "customerId i = customerId j \<Longrightarrow> i = j"
proof -
  assume "customerId i = customerId j"
  then have "padStart 4 (CHR ''0'') (toString i) = padStart 4 (CHR ''0'') (toString j)"
    by (simp add: customerId_def)
  then have "fromString (padStart 4 (CHR ''0'') (toString i))
           = fromString (padStart 4 (CHR ''0'') (toString j))" by simp
  then show "i = j" by (simp add: fromString_padStart fromString_toString)
qed

lemma customerId_first: "map customerId [1 ..< Suc 3] = [''CUST-0001'', ''CUST-0002'', ''CUST-0003'']"
  by (simp add: upt_rec customerId_def padStart_def toString.simps digit_char_def eval_nat_numeral)

lemma customerId_wide: "customerId 12345 = ''CUST-12345''"
  by (simp add: customerId_def padStart_def toString.simps digit_char_def)

text \<open>
  C7. For every count and every sequence of draws, \<open>generateSampleData\<close> returns
  exactly \<open>count\<close> records; each of the four criterion fields of each record lies in
  \<open>[0, 100]\<close>; and the customer IDs are, in order, the zero-padded sequence
  CUST-0001, CUST-0002, ..., with no ID occurring twice.
\<close>

theorem generateSampleData_records:
  "length (fst (generateSampleData draws count k)) = count
   \<and> (\<forall>c \<in> set (fst (generateSampleData draws count k)).
         0 \<le> transaction_history c \<and> transaction_history c \<le> 100
       \<and> 0 \<le> affordability c \<and> affordability c \<le> 100
       \<and> 0 \<le> employment c \<and> employment c \<le> 100
       \<and> 0 \<le> behavior c \<and> behavior c \<le> 100)
   \<and> map customer_id (fst (generateSampleData draws count k)) = map customerId [1 ..< Suc count]
   \<and> distinct (map customer_id (fst (generateSampleData draws count k)))"
proof (intro conjI ballI)
  show "length (fst (generateSampleData draws count k)) = count"
    by (simp add: generateSampleData_eq)
  show ids: "map customer_id (fst (generateSampleData draws count k)) = map customerId [1 ..< Suc count]"
    by (simp add: generateSampleData_eq generateCustomer_id comp_def)
  have "inj_on customerId (set [1 ..< Suc count])"
    by (rule inj_onI) (rule customerId_inj)
  then show "distinct (map customer_id (fst (generateSampleData draws count k)))"
    unfolding ids by (simp add: distinct_map)
next
  fix c assume "c \<in> set (fst (generateSampleData draws count k))"
  then obtain j where c: "c = fst (generateCustomer draws j (k + 9 * (j - 1)))"
    by (auto simp: generateSampleData_eq)
  show "0 \<le> transaction_history c" "transaction_history c \<le> 100"
       "0 \<le> affordability c" "affordability c \<le> 100"
       "0 \<le> employment c" "employment c \<le> 100"
       "0 \<le> behavior c" "behavior c \<le> 100"
    unfolding c using generateCustomer_bounds [of draws j "k + 9 * (j - 1)"] by simp_all
qed

theorem generateSampleData_records_witness:
  "map customer_id (fst (generateSampleData (\<lambda>n. 1 / 2) 3 0))
     = [''CUST-0001'', ''CUST-0002'', ''CUST-0003'']
   \<and> length (fst (generateSampleData (\<lambda>n. 1 / 2) 3 0)) = 3
   \<and> 0 \<le> behavior (fst (generateSampleData (\<lambda>n. 1 / 2) 3 0) ! 2)
   \<and> behavior (fst (generateSampleData (\<lambda>n. 1 / 2) 3 0) ! 2) \<le> 100"
proof -
  let ?data = "fst (generateSampleData (\<lambda>n. 1 / 2) 3 0)"
  note t = generateSampleData_records [of "\<lambda>n. 1 / 2" 3 0]
  have "map customer_id ?data = map customerId [1 ..< Suc 3]"
    by (rule conjunct1 [OF conjunct2 [OF conjunct2 [OF t]]])
  then have ids: "map customer_id ?data = [''CUST-0001'', ''CUST-0002'', ''CUST-0003'']"
    by (simp only: customerId_first)
  have len: "length ?data = 3" by (rule conjunct1 [OF t])
  then have "?data ! 2 \<in> set ?data" by simp
  with conjunct1 [OF conjunct2 [OF t]]
  have "0 \<le> behavior (?data ! 2) \<and> behavior (?data ! 2) \<le> 100" by blast
  with ids len show ?thesis by simp
qed

end
